theory Spec2Isabelle
  imports Complex_Main "HOL-Library.Sublist" "HOL-Library.Log_Nat" "HOL-Library.AList"
begin

section \<open>Values decoded from JSON\<close>

text \<open>
  \<^verbatim>\<open>json.loads\<close> yields \<^verbatim>\<open>None\<close>, \<^verbatim>\<open>bool\<close>, \<^verbatim>\<open>int\<close>, \<^verbatim>\<open>float\<close>, \<^verbatim>\<open>str\<close>,
  \<^verbatim>\<open>list\<close> and \<^verbatim>\<open>dict\<close> objects.  A \<^verbatim>\<open>dict\<close> is kept as an association list in
  insertion order; its keys are strings and no key occurs twice (the decoder keeps the
  last value of a repeated key).  A \<^verbatim>\<open>float\<close> is represented by the rational number it
  denotes; the non-standard literals \<^verbatim>\<open>NaN\<close> and \<^verbatim>\<open>Infinity\<close> are not represented.
  Every \<^typ>\<open>char\<close> of a string stands for one code point of the Python \<^verbatim>\<open>str\<close>.
\<close>

datatype json =
    JNull
  | JBool bool
  | JInt int
  | JFloat rat
  | JStr string
  | JList "json list"
  | JDict "(string \<times> json) list"

datatype py_error =
    KeyError
  | TypeError
  | IndexError
  | AttributeError
  | RequestException

text \<open>\<^verbatim>\<open>isinstance(v, dict)\<close>, \<^verbatim>\<open>isinstance(v, str)\<close>, \<^verbatim>\<open>isinstance(v, bool)\<close>.\<close>

fun is_dict :: "json \<Rightarrow> bool" where
  "is_dict (JDict d) = True"
| "is_dict v = False"

fun is_str :: "json \<Rightarrow> bool" where
  "is_str (JStr s) = True"
| "is_str v = False"

fun is_bool :: "json \<Rightarrow> bool" where
  "is_bool (JBool b) = True"
| "is_bool v = False"

text \<open>Lists and dicts are unhashable: using one as a dict key raises \<^verbatim>\<open>TypeError\<close>.\<close>

fun hashable :: "json \<Rightarrow> bool" where
  "hashable (JList xs) = False"
| "hashable (JDict d) = False"
| "hashable v = True"

text \<open>The numeric value of an object that compares as a number (\<^verbatim>\<open>True == 1\<close>).\<close>

fun num_of :: "json \<Rightarrow> rat option" where
  "num_of (JBool b) = Some (if b then 1 else 0)"
| "num_of (JInt i) = Some (of_int i)"
| "num_of (JFloat r) = Some r"
| "num_of v = None"

text \<open>
  The operator \<^verbatim>\<open>==\<close>: numbers (booleans included) by value, strings by content, lists
  element by element, dicts by equal key sets with equal values, \<^verbatim>\<open>None\<close> only with
  itself; objects of different kinds are unequal.
\<close>

lemma size_elem_JList: "x \<in> set xs \<Longrightarrow> size x < size (JList xs)"
  by (induction xs) auto

lemma size_snd_JDict: "kv \<in> set d \<Longrightarrow> size (snd kv) < size (JDict d)"
  by (induction d) auto

function (sequential) py_eq :: "json \<Rightarrow> json \<Rightarrow> bool" where
  "py_eq JNull JNull = True"
| "py_eq (JStr a) (JStr b) = (a = b)"
| "py_eq (JList xs) (JList ys) =
     (length xs = length ys \<and> list_all (\<lambda>xy. py_eq (fst xy) (snd xy)) (zip xs ys))"
| "py_eq (JDict d) (JDict e) =
     (length d = length e \<and>
      list_all (\<lambda>kv. case map_of e (fst kv) of None \<Rightarrow> False | Some w \<Rightarrow> py_eq (snd kv) w) d)"
| "py_eq a b = (case num_of a of None \<Rightarrow> False
                | Some x \<Rightarrow> (case num_of b of None \<Rightarrow> False | Some y \<Rightarrow> x = y))"
  by pat_completeness auto
termination
proof (relation "measure (\<lambda>p. size (fst p))")
  show "wf (measure (\<lambda>p. size (fst p)))" by simp
next
  fix xs ys :: "json list" and z
  assume "z \<in> set (zip xs ys)"
  then have "fst z \<in> set xs" by (metis prod.collapse set_zip_leftD)
  then show "((fst z, snd z), JList xs, JList ys) \<in> measure (\<lambda>p. size (fst p))"
    using size_elem_JList by simp
next
  fix d e :: "(string \<times> json) list" and z x2
  assume "z \<in> set d"
  then show "((snd z, x2), JDict d, JDict e) \<in> measure (\<lambda>p. size (fst p))"
    using size_snd_JDict by simp
qed

text \<open>
  Sequencing of operations that may raise: the first exception ends the evaluation.
  \<open>and_then\<close> and \<open>or_else\<close> are the short-circuit operators \<^verbatim>\<open>and\<close> and \<^verbatim>\<open>or\<close> on
  truth values.
\<close>

definition bind :: "py_error + 'a \<Rightarrow> ('a \<Rightarrow> py_error + 'b) \<Rightarrow> py_error + 'b" where
  "bind r f = (case r of Inl e \<Rightarrow> Inl e | Inr v \<Rightarrow> f v)"

definition and_then :: "py_error + bool \<Rightarrow> py_error + bool \<Rightarrow> py_error + bool" where
  "and_then a b = (case a of Inl e \<Rightarrow> Inl e | Inr t \<Rightarrow> if t then b else Inr False)"

definition or_else :: "py_error + bool \<Rightarrow> py_error + bool \<Rightarrow> py_error + bool" where
  "or_else a b = (case a of Inl e \<Rightarrow> Inl e | Inr t \<Rightarrow> if t then Inr True else b)"

text \<open>
  The operator \<^verbatim>\<open>x in c\<close>: key membership for a dict (an unhashable \<^verbatim>\<open>x\<close> raises
  \<^verbatim>\<open>TypeError\<close>; the keys are strings, so only a string can be among them), element
  membership for a list, substring test for a string (\<^verbatim>\<open>TypeError\<close> unless \<^verbatim>\<open>x\<close> is a
  string); any other \<^verbatim>\<open>c\<close> is not iterable.
\<close>

fun py_in :: "json \<Rightarrow> json \<Rightarrow> py_error + bool" where
  "py_in x (JDict d) =
     (if hashable x
      then Inr (case x of JStr k \<Rightarrow> k \<in> set (map fst d) | _ \<Rightarrow> False)
      else Inl TypeError)"
| "py_in x (JList ys) = Inr (list_ex (py_eq x) ys)"
| "py_in x (JStr s) = (case x of JStr t \<Rightarrow> Inr (sublist t s) | _ \<Rightarrow> Inl TypeError)"
| "py_in x c = Inl TypeError"

text \<open>
  Subscription \<^verbatim>\<open>c[k]\<close>.  A dict raises \<^verbatim>\<open>KeyError\<close> for a missing key and
  \<^verbatim>\<open>TypeError\<close> for an unhashable one.  A list or a string takes an integer (a boolean
  counts as one), a negative one counting from the end, and raises \<^verbatim>\<open>IndexError\<close> out
  of range.  Nothing else is subscriptable.
\<close>

fun int_index :: "json \<Rightarrow> int option" where
  "int_index (JInt i) = Some i"
| "int_index (JBool b) = Some (if b then 1 else 0)"
| "int_index v = None"

definition seq_item :: "'a list \<Rightarrow> int \<Rightarrow> py_error + 'a" where
  "seq_item xs i =
     (if - int (length xs) \<le> i \<and> i < int (length xs)
      then Inr (xs ! nat (if 0 \<le> i then i else int (length xs) + i))
      else Inl IndexError)"

fun py_getitem :: "json \<Rightarrow> json \<Rightarrow> py_error + json" where
  "py_getitem (JDict d) k =
     (if hashable k
      then (case k of
              JStr s \<Rightarrow> (case map_of d s of None \<Rightarrow> Inl KeyError | Some v \<Rightarrow> Inr v)
            | _ \<Rightarrow> Inl KeyError)
      else Inl TypeError)"
| "py_getitem (JList xs) k =
     (case int_index k of None \<Rightarrow> Inl TypeError | Some i \<Rightarrow> seq_item xs i)"
| "py_getitem (JStr s) k =
     (case int_index k of None \<Rightarrow> Inl TypeError
      | Some i \<Rightarrow> bind (seq_item s i) (\<lambda>c. Inr (JStr [c])))"
| "py_getitem c k = Inl TypeError"

text \<open>
  Iteration \<^verbatim>\<open>for x in c\<close>: the elements of a list, the keys of a dict, the characters
  of a string; anything else raises \<^verbatim>\<open>TypeError\<close>.
\<close>

fun py_iter :: "json \<Rightarrow> py_error + json list" where
  "py_iter (JList xs) = Inr xs"
| "py_iter (JDict d) = Inr (map (\<lambda>kv. JStr (fst kv)) d)"
| "py_iter (JStr s) = Inr (map (\<lambda>c. JStr [c]) s)"
| "py_iter c = Inl TypeError"

text \<open>
  A list comprehension \<^verbatim>\<open>[x for x in xs if p(x)]\<close> whose condition may raise: the
  first exception abandons the whole list.
\<close>

fun comprehension :: "(json \<Rightarrow> py_error + bool) \<Rightarrow> json list \<Rightarrow> py_error + json list" where
  "comprehension p [] = Inr []"
| "comprehension p (x # xs) =
     (case p x of
        Inl e \<Rightarrow> Inl e
      | Inr keep \<Rightarrow>
          (case comprehension p xs of
             Inl e \<Rightarrow> Inl e
           | Inr ys \<Rightarrow> Inr (if keep then x # ys else ys)))"

section \<open>Quiz generation\<close>

text \<open>
  Both generators send a prompt to the chat-completion service and decode the text of
  the reply.  The service and the decoder are outside the program, so what they did is a
  parameter: an exception other than \<^verbatim>\<open>JSONDecodeError\<close> was raised before a value
  was decoded (\<open>CallFailed\<close>), \<^verbatim>\<open>json.loads\<close> raised \<^verbatim>\<open>JSONDecodeError\<close>
  (\<open>NotJson\<close>), or it returned a value.  The arguments \<^verbatim>\<open>text_content\<close>,
  \<^verbatim>\<open>roadmap_content\<close> and \<^verbatim>\<open>quiz_level\<close> only enter the prompt.  Beside the returned
  list, the messages shown with \<^verbatim>\<open>st.warning\<close> and \<^verbatim>\<open>st.error\<close> are recorded (the fixed
  part of their text).
\<close>

datatype reply = CallFailed | NotJson | Decoded json

datatype st_msg = StWarning string | StError string | StSuccess string

text \<open>The condition of the comprehension in \<^verbatim>\<open>fetch_questions\<close> (lines 87 to 93).\<close>

definition pre_question_ok :: "json \<Rightarrow> py_error + bool" where
  "pre_question_ok question =
     and_then (Inr (is_dict question))
    (and_then (py_in (JStr ''mcq'') question)
    (and_then (bind (py_getitem question (JStr ''mcq'')) (\<lambda>m. Inr (is_str m)))
    (and_then (py_in (JStr ''options'') question)
    (and_then (bind (py_getitem question (JStr ''options'')) (\<lambda>opts. Inr (is_dict opts)))
    (and_then (py_in (JStr ''correct'') question)
              (bind (py_getitem question (JStr ''correct'')) (\<lambda>c.
               bind (py_getitem question (JStr ''options'')) (\<lambda>opts. py_in c opts))))))))"

definition fetch_questions :: "reply \<Rightarrow> json list \<times> st_msg list" where
  "fetch_questions r =
     (case r of
        CallFailed \<Rightarrow> ([], [StError ''Error generating quiz''])
      | NotJson \<Rightarrow> ([], [StError ''Error parsing JSON from OpenAI''])
      | Decoded questions \<Rightarrow>
          (case bind (py_iter questions) (comprehension pre_question_ok) of
             Inl e \<Rightarrow> ([], [StError ''Error generating quiz''])
           | Inr valid_questions \<Rightarrow>
               (valid_questions,
                if valid_questions = []
                then [StWarning ''No valid questions were generated. OpenAI may have returned malformed data.'']
                else [])))"

text \<open>
  The condition of the comprehension in \<^verbatim>\<open>generate_post_learning_quiz\<close> (lines 133 to
  142): \<^verbatim>\<open>question["type"]\<close> and \<^verbatim>\<open>question["correct"]\<close> are read without a test that
  the key is there, and \<^verbatim>\<open>question["options"]\<close> is not tested to be a dict.
\<close>

definition post_question_ok :: "json \<Rightarrow> py_error + bool" where
  "post_question_ok question =
     or_else
       (and_then (bind (py_getitem question (JStr ''type'')) (\<lambda>t. Inr (py_eq t (JStr ''mcq''))))
       (and_then (py_in (JStr ''options'') question)
                 (bind (py_getitem question (JStr ''correct'')) (\<lambda>c.
                  bind (py_getitem question (JStr ''options'')) (\<lambda>opts. py_in c opts)))))
       (and_then (bind (py_getitem question (JStr ''type'')) (\<lambda>t. Inr (py_eq t (JStr ''true_false''))))
       (and_then (py_in (JStr ''correct'') question)
                 (bind (py_getitem question (JStr ''correct'')) (\<lambda>c. Inr (is_bool c)))))"

definition generate_post_learning_quiz :: "reply \<Rightarrow> json list \<times> st_msg list" where
  "generate_post_learning_quiz r =
     (case r of
        CallFailed \<Rightarrow> ([], [StError ''Error generating post-learning quiz''])
      | NotJson \<Rightarrow> ([], [StError ''Error parsing JSON from OpenAI''])
      | Decoded questions \<Rightarrow>
          (case bind (py_iter questions) (comprehension post_question_ok) of
             Inl e \<Rightarrow> ([], [StError ''Error generating post-learning quiz''])
           | Inr valid_questions \<Rightarrow> (valid_questions, [])))"

section \<open>Scoring\<close>

text \<open>
  An answer record is the dict \<^verbatim>\<open>selected_answers\<close> (or \<^verbatim>\<open>post_quiz_answers\<close>) from
  question index to the recorded answer, in insertion order.  \<^verbatim>\<open>answers.get(idx)\<close> is
  \<^verbatim>\<open>None\<close> for an index without an entry.
\<close>

type_synonym answers = "(nat \<times> json) list"

definition dict_get :: "answers \<Rightarrow> nat \<Rightarrow> json" where
  "dict_get a idx = (case map_of a idx of None \<Rightarrow> JNull | Some v \<Rightarrow> v)"

text \<open>\<^verbatim>\<open>question["options"][question["correct"]]\<close> (lines 230 and 253).\<close>

definition correct_option :: "json \<Rightarrow> py_error + json" where
  "correct_option question =
     bind (py_getitem question (JStr ''options'')) (\<lambda>opts.
     bind (py_getitem question (JStr ''correct'')) (\<lambda>c. py_getitem opts c))"

text \<open>
  The loop of lines 228 to 233 over \<^verbatim>\<open>enumerate(current_quiz)\<close>, from index \<open>idx\<close> on
  with the running \<open>sc\<close>.
\<close>

fun score_pre_from :: "nat \<Rightarrow> answers \<Rightarrow> int \<Rightarrow> json list \<Rightarrow> py_error + int" where
  "score_pre_from idx a sc [] = Inr sc"
| "score_pre_from idx a sc (question # rest) =
     (case correct_option question of
        Inl e \<Rightarrow> Inl e
      | Inr opt \<Rightarrow>
          score_pre_from (Suc idx) a (if py_eq (dict_get a idx) opt then sc + 1 else sc) rest)"

definition score_pre :: "json list \<Rightarrow> answers \<Rightarrow> py_error + int" where
  "score_pre quiz a = score_pre_from 0 a 0 quiz"

text \<open>
  The loop of lines 385 to 390: the recorded answer is compared with
  \<^verbatim>\<open>question["correct"]\<close> itself, for a multiple-choice question too.
\<close>

fun score_post_from :: "nat \<Rightarrow> answers \<Rightarrow> int \<Rightarrow> json list \<Rightarrow> py_error + int" where
  "score_post_from idx a sc [] = Inr sc"
| "score_post_from idx a sc (question # rest) =
     (case py_getitem question (JStr ''correct'') of
        Inl e \<Rightarrow> Inl e
      | Inr correct_answer \<Rightarrow>
          score_post_from (Suc idx) a
            (if py_eq (dict_get a idx) correct_answer then sc + 1 else sc) rest)"

definition score_post :: "json list \<Rightarrow> answers \<Rightarrow> py_error + int" where
  "score_post quiz a = score_post_from 0 a 0 quiz"

section \<open>Performance level\<close>

text \<open>
  \<^verbatim>\<open>total_questions * 0.5\<close> and \<^verbatim>\<open>total_questions * 0.8\<close> are products of an \<^verbatim>\<open>int\<close>
  and a \<^verbatim>\<open>float\<close>: the integer is converted to a double, the product is rounded to the
  nearest double (ties to even), and \<^verbatim>\<open>user_score <= product\<close> compares the exact
  values.  A double in \<open>[1/2, 1)\<close> is \<open>m / 2 ^ 53\<close> with \<open>2 ^ 52 \<le> m < 2 ^ 53\<close>:
  \<open>0.5\<close> has \<open>m = 2 ^ 52\<close> and the double nearest to \<open>4/5\<close> has
  \<open>m = 7205759403792794\<close>.  \<open>round_half_even n k\<close> is \<open>n / 2 ^ k\<close> rounded to an
  integer.  \<open>int_times_double t m\<close> is the value of the product for \<open>t < 2 ^ 53\<close>, where
  the conversion of \<open>t\<close> is exact: the exact product \<open>t * m / 2 ^ 53\<close> keeps 53
  significant bits.
\<close>

definition round_half_even :: "nat \<Rightarrow> nat \<Rightarrow> nat" where
  "round_half_even n k =
     (let q = n div 2 ^ k; r = n mod 2 ^ k
      in if 2 * r < 2 ^ k then q
         else if 2 ^ k < 2 * r then q + 1
         else if even q then q else q + 1)"

definition int_times_double :: "nat \<Rightarrow> nat \<Rightarrow> rat" where
  "int_times_double t m =
     (let n = t * m; k = floorlog 2 n - 53
      in of_nat (round_half_even n k * 2 ^ k) / 2 ^ 53)"

definition double_0_5 :: nat where
  "double_0_5 = 2 ^ 52"

definition double_0_8 :: nat where
  "double_0_8 = 7205759403792794"

datatype level = Beginner | Intermediate | Advanced

text \<open>Lines 285 to 293.\<close>

definition performance_level :: "int \<Rightarrow> nat \<Rightarrow> level" where
  "performance_level user_score total_questions =
     (if of_int user_score \<le> int_times_double total_questions double_0_5 then Beginner
      else if of_int user_score \<le> int_times_double total_questions double_0_8 then Intermediate
      else Advanced)"

section \<open>Text normalizer and course scraper\<close>

text \<open>
  \<^verbatim>\<open>clean_text\<close> is built from NLTK's \<^verbatim>\<open>word_tokenize\<close> and English stop-word list
  and from \<^verbatim>\<open>str.lower\<close>, \<^verbatim>\<open>str.isalpha\<close> and \<^verbatim>\<open>str.strip\<close>.  None of them is code of
  the program; they are the fields of a parameter.
\<close>

record text_lib =
  word_tokenize :: "string \<Rightarrow> string list"
  stopwords :: "string list"
  str_lower :: "string \<Rightarrow> string"
  str_isalpha :: "string \<Rightarrow> bool"
  str_strip :: "string \<Rightarrow> string"

text \<open>\<^verbatim>\<open>" ".join(words)\<close>.\<close>

fun join_words :: "string list \<Rightarrow> string" where
  "join_words [] = []"
| "join_words [w] = w"
| "join_words (w # v # ws) = w @ '' '' @ join_words (v # ws)"

definition filtered_words :: "text_lib \<Rightarrow> string \<Rightarrow> string list" where
  "filtered_words L txt =
     filter (\<lambda>word. word \<notin> set (stopwords L) \<and> str_isalpha L word)
       (word_tokenize L (str_lower L txt))"

definition clean_text :: "text_lib \<Rightarrow> string \<Rightarrow> string" where
  "clean_text L txt = join_words (filtered_words L txt)"

text \<open>
  \<^verbatim>\<open>scrape_course\<close>.  The HTTP client and the HTML parser are outside the program: the
  parameter is what \<^verbatim>\<open>requests.get\<close> did (it raised, or returned a response), and a
  response carries its status code and, for its parsed body, what the two \<^verbatim>\<open>soup.find\<close>
  calls give: \<open>None\<close> when the element is missing, else the \<^verbatim>\<open>.text\<close> of the
  \<^verbatim>\<open>li\<close> (or \<^verbatim>\<open>span\<close>) elements inside it.  The result is the pair the function returns.
\<close>

record response =
  status_code :: int
  learn_section :: "string list option"
  skills_section :: "string list option"

record course_content =
  what_youll_learn :: "string list"
  skills_youll_gain :: "string list"

definition scrape_course ::
  "text_lib \<Rightarrow> py_error + response \<Rightarrow> py_error + (course_content option \<times> string option)" where
  "scrape_course L got =
     (case got of
        Inl e \<Rightarrow> Inl e
      | Inr resp \<Rightarrow>
          if status_code resp \<noteq> 200 then Inr (None, Some ''Failed to fetch content'')
          else
            let what_you_learn =
                  (case learn_section resp of
                     Some items \<Rightarrow> map (str_strip L) items | None \<Rightarrow> []);
                skills =
                  (case skills_section resp of
                     Some items \<Rightarrow> map (str_strip L) items | None \<Rightarrow> [])
            in Inr (Some \<lparr>what_youll_learn = map (clean_text L) what_you_learn,
                          skills_youll_gain = map (clean_text L) skills\<rparr>, None))"

section \<open>The session and one run of the script\<close>

text \<open>
  \<^verbatim>\<open>st.session_state\<close> is a record with one field for each key the script uses; a field
  is \<open>None\<close> while its key is absent.  An entry of the history \<^verbatim>\<open>quizzes\<close> is the dict
  with the keys \<^verbatim>\<open>date\<close>, \<^verbatim>\<open>score\<close> and \<^verbatim>\<open>total\<close>; a date is its day number.
\<close>

record score_result =
  date :: nat
  score :: int
  total :: int

record session =
  course_topics :: "string list option"
  quizzes :: "score_result list option"
  current_quiz :: "json list option"
  selected_answers :: "answers option"
  quiz_submitted :: "bool option"
  last_quiz_score :: "int option"
  roadmap :: "string option"
  post_quiz :: "json list option"
  post_quiz_answers :: "answers option"
  post_quiz_submitted :: "bool option"
  last_post_quiz_score :: "int option"

definition new_session :: session where
  "new_session =
     \<lparr>course_topics = None, quizzes = None, current_quiz = None, selected_answers = None,
      quiz_submitted = None, last_quiz_score = None, roadmap = None, post_quiz = None,
      post_quiz_answers = None, post_quiz_submitted = None, last_post_quiz_score = None\<rparr>"

text \<open>
  Streamlit runs \<^verbatim>\<open>main\<close> from the top after every user action.  What the widgets and
  the outside world give to one run is its input: the text fields, which button was
  pressed (\<^verbatim>\<open>st.button\<close> is true for the pressed button only), what each \<^verbatim>\<open>st.radio\<close>
  returns for the question at an index, the date, and what the HTTP client and the
  chat-completion service did (\<open>roadmap_reply\<close> is \<open>None\<close> when the roadmap call
  raised).  Widgets are not part of the program: that a radio returns one of its options
  is not modelled, nor is an exception raised inside a widget.
\<close>

record ui =
  course_url :: string
  fetched :: "py_error + response"
  gen_quiz :: bool
  quiz_reply :: reply
  radio :: "nat \<Rightarrow> json"
  submit_answers :: bool
  today :: nat
  gen_roadmap :: bool
  roadmap_reply :: "string option"
  gen_post_quiz :: bool
  post_reply :: reply
  post_radio :: "nat \<Rightarrow> json"
  submit_post :: bool

text \<open>
  A run ends normally or with an uncaught exception; the assignments to the session made
  before the exception stay.  An outcome is the exception, if any, and the session.
\<close>

type_synonym outcome = "py_error option \<times> session"

definition and_next :: "outcome \<Rightarrow> (session \<Rightarrow> outcome) \<Rightarrow> outcome" where
  "and_next r f = (case fst r of None \<Rightarrow> f (snd r) | Some e \<Rightarrow> r)"

text \<open>\<^verbatim>\<open>st.session_state.get(key, False)\<close> for a boolean entry.\<close>

definition get_flag :: "bool option \<Rightarrow> bool" where
  "get_flag f = (case f of None \<Rightarrow> False | Some b \<Rightarrow> b)"

text \<open>\<^verbatim>\<open>list(options.values())\<close>: only a dict has \<^verbatim>\<open>values\<close>.\<close>

fun dict_values :: "json \<Rightarrow> py_error + json list" where
  "dict_values (JDict d) = Inr (map snd d)"
| "dict_values v = Inl AttributeError"

text \<open>Lines 168 to 171.\<close>

definition init_state :: "session \<Rightarrow> session" where
  "init_state s =
     (let s1 = (if course_topics s = None then s\<lparr>course_topics := Some []\<rparr> else s)
      in if quizzes s1 = None then s1\<lparr>quizzes := Some []\<rparr> else s1)"

text \<open>The Home tab, lines 177 to 187.\<close>

definition home_tab :: "text_lib \<Rightarrow> ui \<Rightarrow> session \<Rightarrow> outcome" where
  "home_tab L u s =
     (if course_url u \<noteq> []
      then (case scrape_course L (fetched u) of
              Inl e \<Rightarrow> (Some e, s)
            | Inr r \<Rightarrow>
                (if snd r \<noteq> None \<and> snd r \<noteq> Some [] then (None, s)
                 else (case fst r of
                         None \<Rightarrow> (Some AttributeError, s)
                       | Some data \<Rightarrow> (None, s\<lparr>course_topics := Some (what_youll_learn data)\<rparr>))))
      else (None, s))"

text \<open>
  The pre-learning tab.  Lines 195 to 207: \<^verbatim>\<open>text_content\<close> starts with
  \<^verbatim>\<open>str(course_data)\<close>, at least \<^verbatim>\<open>{}\<close>, so \<^verbatim>\<open>text_content.strip()\<close> is never empty.
\<close>

definition generate_quiz :: "ui \<Rightarrow> session \<Rightarrow> session" where
  "generate_quiz u s =
     (if gen_quiz u
      then (let questions = fst (fetch_questions (quiz_reply u))
            in if questions \<noteq> []
               then s\<lparr>current_quiz := Some questions, selected_answers := Some [],
                      quiz_submitted := Some False\<rparr>
               else s)
      else s)"

text \<open>Lines 211 to 221, from index \<open>idx\<close> on.\<close>

fun show_quiz_from :: "ui \<Rightarrow> nat \<Rightarrow> json list \<Rightarrow> session \<Rightarrow> outcome" where
  "show_quiz_from u idx [] s = (None, s)"
| "show_quiz_from u idx (question # rest) s =
     (case bind (py_getitem question (JStr ''mcq'')) (\<lambda>m.
           bind (py_getitem question (JStr ''options'')) dict_values) of
        Inl e \<Rightarrow> (Some e, s)
      | Inr opts \<Rightarrow>
          (case selected_answers s of
             None \<Rightarrow> (Some KeyError, s)
           | Some a \<Rightarrow>
               show_quiz_from u (Suc idx) rest
                 (s\<lparr>selected_answers := Some (AList.update idx (radio u idx) a)\<rparr>)))"

text \<open>
  Lines 223 to 235.  Without the key \<^verbatim>\<open>selected_answers\<close> the loop raises at its first
  question, after \<^verbatim>\<open>correct_option\<close> has been read.
\<close>

definition submit_quiz :: "ui \<Rightarrow> json list \<Rightarrow> session \<Rightarrow> outcome" where
  "submit_quiz u quiz s =
     (if \<not> get_flag (quiz_submitted s) \<and> submit_answers u
      then (let s1 = s\<lparr>quiz_submitted := Some True\<rparr>
            in case selected_answers s1 of
                 None \<Rightarrow>
                   (case quiz of
                      [] \<Rightarrow> (None, s1\<lparr>last_quiz_score := Some 0\<rparr>)
                    | question # rest \<Rightarrow>
                        (case correct_option question of
                           Inl e \<Rightarrow> (Some e, s1)
                         | Inr opt \<Rightarrow> (Some KeyError, s1)))
               | Some a \<Rightarrow>
                   (case score_pre quiz a of
                      Inl e \<Rightarrow> (Some e, s1)
                    | Inr sc \<Rightarrow> (None, s1\<lparr>last_quiz_score := Some sc\<rparr>)))
      else (None, s))"

text \<open>
  The loop of lines 245 to 259 changes no state; it may raise.  Its argument \<open>a\<close> is
  the entry \<^verbatim>\<open>selected_answers\<close>, read at line 254.
\<close>

fun review_quiz :: "answers option \<Rightarrow> json list \<Rightarrow> py_error + unit" where
  "review_quiz a [] = Inr ()"
| "review_quiz a (question # rest) =
     bind (and_then (py_in (JStr ''mcq'') question)
                    (bind (py_getitem question (JStr ''mcq'')) (\<lambda>m. Inr (is_str m)))) (\<lambda>b.
     bind (correct_option question) (\<lambda>opt.
       if a = None then Inl KeyError else review_quiz a rest))"

text \<open>Lines 238 to 270.\<close>

definition show_results :: "ui \<Rightarrow> json list \<Rightarrow> session \<Rightarrow> outcome" where
  "show_results u quiz s =
     (if get_flag (quiz_submitted s)
      then (case last_quiz_score s of
              None \<Rightarrow> (Some KeyError, s)
            | Some sc \<Rightarrow>
                (case review_quiz (selected_answers s) quiz of
                   Inl e \<Rightarrow> (Some e, s)
                 | Inr x \<Rightarrow>
                     (let s1 = (if quizzes s = None then s\<lparr>quizzes := Some []\<rparr> else s)
                      in (None,
                          s1\<lparr>quizzes :=
                               map_option
                                 (\<lambda>h. h @ [\<lparr>date = today u, score = sc,
                                             total = int (length quiz)\<rparr>])
                                 (quizzes s1)\<rparr>))))
      else (None, s))"

definition pre_quiz_tab :: "ui \<Rightarrow> session \<Rightarrow> outcome" where
  "pre_quiz_tab u s =
     (let s1 = generate_quiz u s
      in case current_quiz s1 of
           None \<Rightarrow> (None, s1)
         | Some quiz \<Rightarrow>
             if quiz = [] then (None, s1)
             else and_next (show_quiz_from u 0 quiz s1) (\<lambda>s2.
                  and_next (submit_quiz u quiz s2) (show_results u quiz)))"

text \<open>
  The Roadmap tab, lines 277 to 339.  The performance level is shown and enters the
  prompt; the only assignment is the roadmap, when the call returns.
\<close>

definition shown_level :: "session \<Rightarrow> level option" where
  "shown_level s =
     (case last_quiz_score s of
        None \<Rightarrow> None
      | Some user_score \<Rightarrow>
          (case current_quiz s of
             None \<Rightarrow> None
           | Some quiz \<Rightarrow> Some (performance_level user_score (length quiz))))"

definition roadmap_tab :: "ui \<Rightarrow> session \<Rightarrow> outcome" where
  "roadmap_tab u s =
     (if last_quiz_score s \<noteq> None \<and> course_topics s \<noteq> None
      then (case current_quiz s of
              None \<Rightarrow> (Some KeyError, s)
            | Some quiz \<Rightarrow>
                (if gen_roadmap u
                 then (case roadmap_reply u of
                         None \<Rightarrow> (None, s)
                       | Some r \<Rightarrow> (None, s\<lparr>roadmap := Some r\<rparr>))
                 else (None, s)))
      else (None, s))"

text \<open>The post-learning tab.  Lines 344 to 360.\<close>

definition generate_post :: "ui \<Rightarrow> session \<Rightarrow> session" where
  "generate_post u s =
     (if roadmap s = None \<or> roadmap s = Some [] then s
      else if gen_post_quiz u
      then (let post_questions = fst (generate_post_learning_quiz (post_reply u))
            in if post_questions \<noteq> []
               then s\<lparr>post_quiz := Some post_questions, post_quiz_answers := Some [],
                      post_quiz_submitted := Some False\<rparr>
               else s)
      else s)"

text \<open>Lines 363 to 379, from index \<open>idx\<close> on.\<close>

fun show_post_from :: "ui \<Rightarrow> nat \<Rightarrow> json list \<Rightarrow> session \<Rightarrow> outcome" where
  "show_post_from u idx [] s = (None, s)"
| "show_post_from u idx (question # rest) s =
     (case py_getitem question (JStr ''type'') of
        Inl e \<Rightarrow> (Some e, s)
      | Inr t \<Rightarrow>
          if py_eq t (JStr ''mcq'')
          then (case bind (py_getitem question (JStr ''question'')) (\<lambda>q.
                     bind (py_getitem question (JStr ''options'')) dict_values) of
                  Inl e \<Rightarrow> (Some e, s)
                | Inr opts \<Rightarrow>
                    (case post_quiz_answers s of
                       None \<Rightarrow> (Some KeyError, s)
                     | Some a \<Rightarrow>
                         show_post_from u (Suc idx) rest
                           (s\<lparr>post_quiz_answers :=
                                Some (AList.update idx (post_radio u idx) a)\<rparr>)))
          else if py_eq t (JStr ''true_false'')
          then (case py_getitem question (JStr ''question'') of
                  Inl e \<Rightarrow> (Some e, s)
                | Inr q \<Rightarrow>
                    (case post_quiz_answers s of
                       None \<Rightarrow> (Some KeyError, s)
                     | Some a \<Rightarrow>
                         show_post_from u (Suc idx) rest
                           (s\<lparr>post_quiz_answers :=
                                Some (AList.update idx
                                        (JBool (py_eq (post_radio u idx) (JStr ''True''))) a)\<rparr>)))
          else show_post_from u (Suc idx) rest s)"

text \<open>Lines 381 to 391.\<close>

definition submit_post_quiz :: "ui \<Rightarrow> json list \<Rightarrow> session \<Rightarrow> outcome" where
  "submit_post_quiz u quiz s =
     (if \<not> get_flag (post_quiz_submitted s) \<and> submit_post u
      then (let s1 = s\<lparr>post_quiz_submitted := Some True\<rparr>
            in case post_quiz_answers s1 of
                 None \<Rightarrow>
                   (case quiz of
                      [] \<Rightarrow> (None, s1\<lparr>last_post_quiz_score := Some 0\<rparr>)
                    | question # rest \<Rightarrow>
                        (case py_getitem question (JStr ''correct'') of
                           Inl e \<Rightarrow> (Some e, s1)
                         | Inr c \<Rightarrow> (Some KeyError, s1)))
               | Some a \<Rightarrow>
                   (case score_post quiz a of
                      Inl e \<Rightarrow> (Some e, s1)
                    | Inr sc \<Rightarrow> (None, s1\<lparr>last_post_quiz_score := Some sc\<rparr>)))
      else (None, s))"

text \<open>
  Lines 393 to 406: nothing is assigned; the loop may raise.  Its argument \<open>a\<close> is the
  entry \<^verbatim>\<open>post_quiz_answers\<close>, read at line 401.
\<close>

fun review_post :: "answers option \<Rightarrow> json list \<Rightarrow> py_error + unit" where
  "review_post a [] = Inr ()"
| "review_post a (question # rest) =
     bind (py_getitem question (JStr ''question'')) (\<lambda>q.
     bind (py_getitem question (JStr ''correct'')) (\<lambda>c.
       if a = None then Inl KeyError else review_post a rest))"

definition show_post_results :: "json list \<Rightarrow> session \<Rightarrow> outcome" where
  "show_post_results quiz s =
     (if get_flag (post_quiz_submitted s)
      then (case last_post_quiz_score s of
              None \<Rightarrow> (Some KeyError, s)
            | Some sc \<Rightarrow>
                (case review_post (post_quiz_answers s) quiz of Inl e \<Rightarrow> (Some e, s) | Inr x \<Rightarrow> (None, s)))
      else (None, s))"

definition post_quiz_tab :: "ui \<Rightarrow> session \<Rightarrow> outcome" where
  "post_quiz_tab u s =
     (let s1 = generate_post u s
      in case post_quiz s1 of
           None \<Rightarrow> (None, s1)
         | Some quiz \<Rightarrow>
             if quiz = [] then (None, s1)
             else and_next (show_post_from u 0 quiz s1) (\<lambda>s2.
                  and_next (submit_post_quiz u quiz s2) (show_post_results quiz)))"

text \<open>One run of \<^verbatim>\<open>main\<close>.\<close>

definition main :: "text_lib \<Rightarrow> ui \<Rightarrow> session \<Rightarrow> outcome" where
  "main L u s =
     and_next (home_tab L u (init_state s)) (\<lambda>s1.
     and_next (pre_quiz_tab u s1) (\<lambda>s2.
     and_next (roadmap_tab u s2) (post_quiz_tab u)))"

section \<open>The indices that match\<close>

text \<open>
  The indices of a quiz, counted from \<open>idx\<close>, whose recorded answer equals the value
  the loop compares it with: the option text under the correct key in the pre-learning
  loop, the entry \<^verbatim>\<open>correct\<close> in the post-learning loop.
\<close>

definition matching_pre :: "answers \<Rightarrow> nat \<Rightarrow> json list \<Rightarrow> nat list" where
  "matching_pre a idx quiz =
     filter (\<lambda>i. case correct_option (quiz ! i) of
                   Inl e \<Rightarrow> False
                 | Inr opt \<Rightarrow> py_eq (dict_get a (idx + i)) opt)
       [0..<length quiz]"

definition matching_post :: "answers \<Rightarrow> nat \<Rightarrow> json list \<Rightarrow> nat list" where
  "matching_post a idx quiz =
     filter (\<lambda>i. case py_getitem (quiz ! i) (JStr ''correct'') of
                   Inl e \<Rightarrow> False
                 | Inr c \<Rightarrow> py_eq (dict_get a (idx + i)) c)
       [0..<length quiz]"

section \<open>Concrete inputs\<close>

text \<open>
  A run in which no field is filled and no button is pressed, and the questions used in
  the examples below.
\<close>

definition no_action :: ui where
  "no_action =
     \<lparr>course_url = [], fetched = Inl RequestException, gen_quiz = False,
      quiz_reply = CallFailed, radio = (\<lambda>idx. JNull), submit_answers = False, today = 0,
      gen_roadmap = False, roadmap_reply = None, gen_post_quiz = False,
      post_reply = CallFailed, post_radio = (\<lambda>idx. JNull), submit_post = False\<rparr>"

definition capital_mcq :: json where
  "capital_mcq =
     JDict [(''mcq'', JStr ''Capital of France?''),
            (''options'', JDict [(''a'', JStr ''Paris''), (''b'', JStr ''Rome'')]),
            (''correct'', JStr ''a'')]"

definition capital_post_mcq :: json where
  "capital_post_mcq =
     JDict [(''type'', JStr ''mcq''), (''question'', JStr ''Capital of France?''),
            (''options'', JDict [(''a'', JStr ''Paris''), (''b'', JStr ''Rome'')]),
            (''correct'', JStr ''a'')]"

definition capital_post_list :: json where
  "capital_post_list =
     JDict [(''type'', JStr ''mcq''), (''question'', JStr ''Capital of France?''),
            (''options'', JList [JStr ''Paris'', JStr ''Rome'']),
            (''correct'', JStr ''Paris'')]"

definition sky_true_false :: json where
  "sky_true_false =
     JDict [(''type'', JStr ''true_false''), (''question'', JStr ''The sky is blue.''),
            (''correct'', JBool True)]"

definition with_roadmap :: session where
  "with_roadmap = new_session\<lparr>course_topics := Some [], quizzes := Some [],
                                roadmap := Some ''Week 1: read.''\<rparr>"

definition quiz_shown :: session where
  "quiz_shown = new_session\<lparr>course_topics := Some [], quizzes := Some [],
       current_quiz := Some [capital_mcq], selected_answers := Some [(0, JStr ''Paris'')],
       quiz_submitted := Some False\<rparr>"

definition quiz_scored :: session where
  "quiz_scored = quiz_shown\<lparr>quizzes := Some [\<lparr>date = 7, score = 1, total = 1\<rparr>],
       quiz_submitted := Some True, last_quiz_score := Some 1\<rparr>"

definition resubmit :: ui where
  "resubmit = no_action\<lparr>submit_answers := True, radio := (\<lambda>idx. JStr ''Paris''), today := 7\<rparr>"

text \<open>
  A small instance of the text library, for the examples: ASCII letters, words separated
  by blanks, four stop words.
\<close>

definition ascii_lower_char :: "char \<Rightarrow> char" where
  "ascii_lower_char c =
     (case map_of (zip ''ABCDEFGHIJKLMNOPQRSTUVWXYZ'' ''abcdefghijklmnopqrstuvwxyz'') c of
        None \<Rightarrow> c | Some d \<Rightarrow> d)"

definition ascii_isalpha :: "string \<Rightarrow> bool" where
  "ascii_isalpha w =
     (w \<noteq> [] \<and>
      list_all (\<lambda>c. c \<in> set ''ABCDEFGHIJKLMNOPQRSTUVWXYZabcdefghijklmnopqrstuvwxyz'') w)"

fun blank_split :: "string \<Rightarrow> string \<Rightarrow> string list" where
  "blank_split w [] = (if w = [] then [] else [w])"
| "blank_split w (c # cs) =
     (if c = CHR '' '' then (if w = [] then blank_split [] cs else w # blank_split [] cs)
      else blank_split (w @ [c]) cs)"

definition ascii_lib :: text_lib where
  "ascii_lib =
     \<lparr>word_tokenize = blank_split [], stopwords = [''the'', ''of'', ''is'', ''a''],
      str_lower = map ascii_lower_char, str_isalpha = ascii_isalpha,
      str_strip = (\<lambda>s. rev (dropWhile (\<lambda>c. c = CHR '' '') (rev (dropWhile (\<lambda>c. c = CHR '' '') s))))\<rparr>"

text \<open>The history as a list: empty while the key \<^verbatim>\<open>quizzes\<close> is absent.\<close>

definition history :: "session \<Rightarrow> score_result list" where
  "history s = (case quizzes s of None \<Rightarrow> [] | Some h \<Rightarrow> h)"

section \<open>Facts about the generators and the scoring loops\<close>

lemma py_eq_JStr_right [simp]: "py_eq t (JStr s) \<longleftrightarrow> t = JStr s"
  by (cases t) auto

lemma py_eq_JStr_left [simp]: "py_eq (JStr s) t \<longleftrightarrow> t = JStr s"
  by (cases t) auto

lemma py_eq_JNull_JBool [simp]: "\<not> py_eq JNull (JBool b)"
  by simp

lemma is_str_iff: "is_str v \<longleftrightarrow> (\<exists>s. v = JStr s)"
  by (cases v) auto

lemma is_dict_iff: "is_dict v \<longleftrightarrow> (\<exists>d. v = JDict d)"
  by (cases v) auto

lemma is_bool_iff: "is_bool v \<longleftrightarrow> (\<exists>b. v = JBool b)"
  by (cases v) auto

lemma py_in_JDict_True:
  "py_in c (JDict opts) = Inr True \<longleftrightarrow> (\<exists>k. c = JStr k \<and> k \<in> fst ` set opts)"
  by (cases c) auto

lemma comprehension_filter:
  "comprehension p xs = Inr ys \<Longrightarrow> ys = filter (\<lambda>x. p x = Inr True) xs"
  by (induction xs arbitrary: ys) (auto split: sum.splits if_splits)

lemma pre_question_ok_shape:
  assumes "pre_question_ok q = Inr True"
  shows "\<exists>d m opts k. q = JDict d \<and> map_of d ''mcq'' = Some (JStr m) \<and>
           map_of d ''options'' = Some (JDict opts) \<and> map_of d ''correct'' = Some (JStr k) \<and>
           k \<in> fst ` set opts"
  using assms
  by (cases q)
     (auto simp: pre_question_ok_def and_then_def bind_def is_str_iff is_dict_iff py_in_JDict_True
           split: sum.splits if_splits option.splits json.splits)

lemma post_question_ok_shape:
  assumes "post_question_ok q = Inr True"
  shows "\<exists>d. q = JDict d \<and>
          ((map_of d ''type'' = Some (JStr ''mcq'') \<and>
            (\<exists>c opts. map_of d ''correct'' = Some c \<and> map_of d ''options'' = Some opts \<and>
                      py_in c opts = Inr True))
         \<or> (map_of d ''type'' = Some (JStr ''true_false'') \<and>
             (\<exists>b. map_of d ''correct'' = Some (JBool b))))"
  using assms
  by (cases q)
     (auto simp: post_question_ok_def and_then_def or_else_def bind_def is_bool_iff
           split: sum.splits if_splits option.splits json.splits)

lemma comprehension_subseq: "comprehension p xs = Inr ys \<Longrightarrow> subseq ys xs"
  by (drule comprehension_filter) simp

lemma fetch_questions_cases:
  "fetch_questions r = ([], [StError ''Error generating quiz'']) \<or>
   fetch_questions r = ([], [StError ''Error parsing JSON from OpenAI'']) \<or>
   (\<exists>v xs. r = Decoded v \<and> py_iter v = Inr xs \<and>
      fst (fetch_questions r) = filter (\<lambda>x. pre_question_ok x = Inr True) xs)"
  by (cases r)
     (auto simp: fetch_questions_def bind_def dest: comprehension_filter split: sum.splits)

lemma generate_post_learning_quiz_cases:
  "generate_post_learning_quiz r = ([], [StError ''Error generating post-learning quiz'']) \<or>
   generate_post_learning_quiz r = ([], [StError ''Error parsing JSON from OpenAI'']) \<or>
   (\<exists>v xs. r = Decoded v \<and> py_iter v = Inr xs \<and>
      fst (generate_post_learning_quiz r) = filter (\<lambda>x. post_question_ok x = Inr True) xs)"
  by (cases r)
     (auto simp: generate_post_learning_quiz_def bind_def dest: comprehension_filter
           split: sum.splits)

lemma fetch_questions_valid:
  "q \<in> set (fst (fetch_questions r)) \<Longrightarrow> pre_question_ok q = Inr True"
  using fetch_questions_cases[of r] by auto

lemma generate_post_learning_quiz_valid:
  "q \<in> set (fst (generate_post_learning_quiz r)) \<Longrightarrow> post_question_ok q = Inr True"
  using generate_post_learning_quiz_cases[of r] by auto

lemma pre_ok_correct_option:
  assumes "pre_question_ok q = Inr True"
  shows "\<exists>opt. correct_option q = Inr opt"
proof -
  from pre_question_ok_shape[OF assms] obtain d m opts k where
    q: "q = JDict d" "map_of d ''options'' = Some (JDict opts)" "map_of d ''correct'' = Some (JStr k)"
       "k \<in> fst ` set opts" by blast
  from q(4) obtain v where "map_of opts k = Some v"
    by (metis domD dom_map_of_conv_image_fst)
  with q show ?thesis by (simp add: correct_option_def bind_def)
qed

lemma post_ok_correct:
  assumes "post_question_ok q = Inr True"
  shows "\<exists>c. py_getitem q (JStr ''correct'') = Inr c"
  using post_question_ok_shape[OF assms] by auto

lemma score_pre_from_bounds:
  "score_pre_from idx a sc qs = Inr r \<Longrightarrow> sc \<le> r \<and> r \<le> sc + int (length qs)"
proof (induction qs arbitrary: idx sc)
  case Nil
  then show ?case by simp
next
  case (Cons q qs)
  then show ?case by (fastforce split: sum.splits if_splits)
qed

lemma score_post_from_bounds:
  "score_post_from idx a sc qs = Inr r \<Longrightarrow> sc \<le> r \<and> r \<le> sc + int (length qs)"
proof (induction qs arbitrary: idx sc)
  case Nil
  then show ?case by simp
next
  case (Cons q qs)
  then show ?case by (fastforce split: sum.splits if_splits)
qed

lemma score_pre_from_total:
  "(\<And>q. q \<in> set qs \<Longrightarrow> \<exists>opt. correct_option q = Inr opt) \<Longrightarrow> \<exists>r. score_pre_from idx a sc qs = Inr r"
proof (induction qs arbitrary: idx sc)
  case Nil
  then show ?case by simp
next
  case (Cons q qs)
  from Cons.prems[of q] obtain opt where "correct_option q = Inr opt" by auto
  moreover have "\<exists>r. score_pre_from (Suc idx) a (if py_eq (dict_get a idx) opt then sc + 1 else sc) qs = Inr r"
    using Cons.IH Cons.prems by simp
  ultimately show ?case by simp
qed

lemma score_post_from_total:
  "(\<And>q. q \<in> set qs \<Longrightarrow> \<exists>c. py_getitem q (JStr ''correct'') = Inr c) \<Longrightarrow> \<exists>r. score_post_from idx a sc qs = Inr r"
proof (induction qs arbitrary: idx sc)
  case Nil
  then show ?case by simp
next
  case (Cons q qs)
  from Cons.prems[of q] obtain c where "py_getitem q (JStr ''correct'') = Inr c" by auto
  moreover have "\<exists>r. score_post_from (Suc idx) a (if py_eq (dict_get a idx) c then sc + 1 else sc) qs = Inr r"
    using Cons.IH Cons.prems by simp
  ultimately show ?case by simp
qed

lemma dict_get_missing: "map_of a idx = None \<Longrightarrow> dict_get a idx = JNull"
  by (simp add: dict_get_def)

lemmas run_defs =
  main_def and_next_def home_tab_def init_state_def new_session_def no_action_def
  pre_quiz_tab_def generate_quiz_def submit_quiz_def show_results_def roadmap_tab_def
  post_quiz_tab_def generate_post_def submit_post_quiz_def show_post_results_def get_flag_def
  with_roadmap_def

lemmas check_defs =
  fetch_questions_def generate_post_learning_quiz_def pre_question_ok_def
  post_question_ok_def and_then_def or_else_def bind_def correct_option_def
  score_pre_def score_post_def dict_get_def

lemma capital_post_mcq_generated:
  "generate_post_learning_quiz (Decoded (JList [capital_post_mcq])) = ([capital_post_mcq], [])"
  by (simp add: capital_post_mcq_def check_defs)

lemma capital_post_list_generated:
  "generate_post_learning_quiz (Decoded (JList [capital_post_list])) = ([capital_post_list], [])"
  by (simp add: capital_post_list_def check_defs)

section \<open>The score is the number of matching indices\<close>

lemma upt_Suc_shift: "[0..<Suc n] = 0 # map Suc [0..<n]"
  by (simp add: upt_conv_Cons map_Suc_upt del: upt_Suc)

lemma matching_pre_Cons:
  "length (matching_pre a idx (q # qs)) =
     (case correct_option q of Inl e \<Rightarrow> 0 | Inr opt \<Rightarrow> if py_eq (dict_get a idx) opt then 1 else 0)
     + length (matching_pre a (Suc idx) qs)"
  unfolding matching_pre_def length_Cons upt_Suc_shift
  by (simp add: filter_map comp_def split: sum.splits)

lemma score_pre_from_count:
  "score_pre_from idx a sc qs = Inr n \<Longrightarrow> n = sc + int (length (matching_pre a idx qs))"
proof (induction qs arbitrary: idx sc)
  case Nil
  then show ?case by (simp add: matching_pre_def)
next
  case (Cons q qs)
  show ?case
    using Cons.prems Cons.IH[of "Suc idx" "sc + 1"] Cons.IH[of "Suc idx" sc]
    by (auto simp: matching_pre_Cons split: sum.splits if_splits)
qed

lemma score_pre_count:
  "score_pre quiz a = Inr n \<Longrightarrow> n = int (length (matching_pre a 0 quiz))"
  using score_pre_from_count[of 0 a 0 quiz n] by (simp add: score_pre_def)

lemma matching_post_Cons:
  "length (matching_post a idx (q # qs)) =
     (case py_getitem q (JStr ''correct'') of Inl e \<Rightarrow> 0
      | Inr c \<Rightarrow> if py_eq (dict_get a idx) c then 1 else 0)
     + length (matching_post a (Suc idx) qs)"
  unfolding matching_post_def length_Cons upt_Suc_shift
  by (simp add: filter_map comp_def split: sum.splits)

lemma score_post_from_count:
  "score_post_from idx a sc qs = Inr n \<Longrightarrow> n = sc + int (length (matching_post a idx qs))"
proof (induction qs arbitrary: idx sc)
  case Nil
  then show ?case by (simp add: matching_post_def)
next
  case (Cons q qs)
  show ?case
    using Cons.prems Cons.IH[of "Suc idx" "sc + 1"] Cons.IH[of "Suc idx" sc]
    by (auto simp: matching_post_Cons split: sum.splits if_splits)
qed

lemma score_post_count:
  "score_post quiz a = Inr n \<Longrightarrow> n = int (length (matching_post a 0 quiz))"
  using score_post_from_count[of 0 a 0 quiz n] by (simp add: score_post_def)

lemma show_quiz_from_records:
  assumes "show_quiz_from u idx quiz s = (None, s')" "selected_answers s = Some a"
  shows "\<exists>a'. selected_answers s' = Some a' \<and>
           (\<forall>i. map_of a' i = (if idx \<le> i \<and> i < idx + length quiz then Some (radio u i) else map_of a i))"
  using assms
proof (induction quiz arbitrary: idx s a)
  case Nil
  then show ?case by auto
next
  case (Cons q quiz)
  from Cons.prems have run: "show_quiz_from u (Suc idx) quiz
           (s\<lparr>selected_answers := Some (AList.update idx (radio u idx) a)\<rparr>) = (None, s')"
    by (auto split: sum.splits)
  from Cons.IH[OF run] obtain a' where a': "selected_answers s' = Some a'"
    "\<forall>i. map_of a' i = (if Suc idx \<le> i \<and> i < Suc idx + length quiz then Some (radio u i)
                          else map_of (AList.update idx (radio u idx) a) i)"
    by auto
  show ?case
  proof (intro exI conjI allI)
    show "selected_answers s' = Some a'" by fact
    fix i
    show "map_of a' i = (if idx \<le> i \<and> i < idx + length (q # quiz) then Some (radio u i) else map_of a i)"
      using a'(2) by (auto simp: update_conv')
  qed
qed

section \<open>Facts about runs\<close>

lemma capital_mcq_generated: "fetch_questions (Decoded (JList [capital_mcq])) = ([capital_mcq], [])"
  by (simp add: capital_mcq_def check_defs)

lemma run_generate: "main L (no_action\<lparr>gen_quiz := True, quiz_reply := Decoded (JList [capital_mcq]),
                      radio := (\<lambda>idx. JStr ''Paris'')\<rparr>) new_session = (None, quiz_shown)"
  by (simp add: run_defs quiz_shown_def capital_mcq_def check_defs)

lemma run_submit: "main L (no_action\<lparr>submit_answers := True, radio := (\<lambda>idx. JStr ''Paris''), today := 7\<rparr>) quiz_shown
    = (None, quiz_scored)"
  by (simp add: run_defs quiz_shown_def quiz_scored_def capital_mcq_def check_defs)

lemma run_resubmit: "main L (no_action\<lparr>submit_answers := True, radio := (\<lambda>idx. JStr ''Paris''), today := 7\<rparr>) quiz_scored
    = (None, quiz_scored\<lparr>quizzes := Some [\<lparr>date = 7, score = 1, total = 1\<rparr>, \<lparr>date = 7, score = 1, total = 1\<rparr>]\<rparr>)"
  by (simp add: run_defs quiz_shown_def quiz_scored_def capital_mcq_def check_defs)

lemma run_idle: "main L (no_action\<lparr>radio := (\<lambda>idx. JStr ''Paris''), today := 7\<rparr>) quiz_scored
    = (None, quiz_scored\<lparr>quizzes := Some [\<lparr>date = 7, score = 1, total = 1\<rparr>, \<lparr>date = 7, score = 1, total = 1\<rparr>]\<rparr>)"
  by (simp add: run_defs quiz_shown_def quiz_scored_def capital_mcq_def check_defs)

lemma history_grown_differs: "quiz_scored\<lparr>quizzes := Some [\<lparr>date = 7, score = 1, total = 1\<rparr>, \<lparr>date = 7, score = 1, total = 1\<rparr>]\<rparr> \<noteq> quiz_scored"
  by (simp add: quiz_scored_def quiz_shown_def new_session_def)


lemma submit_quiz_guard: "get_flag (quiz_submitted s) \<Longrightarrow> submit_quiz u quiz s = (None, s)"
  by (simp add: submit_quiz_def)

lemma submit_post_quiz_guard:
  "get_flag (post_quiz_submitted s) \<Longrightarrow> submit_post_quiz u quiz s = (None, s)"
  by (simp add: submit_post_quiz_def)

lemma generate_quiz_resets:
  assumes "gen_quiz u" "fst (fetch_questions (quiz_reply u)) \<noteq> []"
  shows "generate_quiz u s = s\<lparr>current_quiz := Some (fst (fetch_questions (quiz_reply u))),
                               selected_answers := Some [], quiz_submitted := Some False\<rparr>"
  using assms by (simp add: generate_quiz_def Let_def)

lemma history_init_state [simp]: "history (init_state s) = history s"
  by (simp add: init_state_def history_def Let_def split: option.splits)

lemma history_home_tab [simp]: "history (snd (home_tab L u s)) = history s"
  by (simp add: home_tab_def history_def split: sum.splits option.splits)

lemma history_generate_quiz [simp]: "history (generate_quiz u s) = history s"
  by (simp add: generate_quiz_def history_def Let_def)

lemma quizzes_show_quiz_from: "quizzes (snd (show_quiz_from u idx quiz s)) = quizzes s"
  by (induction u idx quiz s rule: show_quiz_from.induct)
     (auto split: sum.splits option.splits)

lemma history_show_quiz_from [simp]: "history (snd (show_quiz_from u idx quiz s)) = history s"
  by (simp add: history_def quizzes_show_quiz_from)

lemma quizzes_submit_quiz: "quizzes (snd (submit_quiz u quiz s)) = quizzes s"
  by (simp add: submit_quiz_def Let_def split: sum.splits option.splits list.splits)

lemma history_submit_quiz [simp]: "history (snd (submit_quiz u quiz s)) = history s"
  by (simp add: history_def quizzes_submit_quiz)

lemma history_show_results:
  "\<exists>h. history (snd (show_results u quiz s)) = history s @ h"
  by (auto simp: show_results_def history_def Let_def split: sum.splits option.splits)

lemma history_roadmap_tab [simp]: "history (snd (roadmap_tab u s)) = history s"
  by (simp add: roadmap_tab_def history_def split: option.splits)

lemma history_generate_post [simp]: "history (generate_post u s) = history s"
  by (simp add: generate_post_def history_def Let_def)

lemma quizzes_show_post_from: "quizzes (snd (show_post_from u idx quiz s)) = quizzes s"
  by (induction u idx quiz s rule: show_post_from.induct)
     (auto split: sum.splits option.splits)

lemma history_show_post_from [simp]: "history (snd (show_post_from u idx quiz s)) = history s"
  by (simp add: history_def quizzes_show_post_from)

lemma quizzes_submit_post_quiz: "quizzes (snd (submit_post_quiz u quiz s)) = quizzes s"
  by (simp add: submit_post_quiz_def Let_def split: sum.splits option.splits list.splits)

lemma history_submit_post_quiz [simp]: "history (snd (submit_post_quiz u quiz s)) = history s"
  by (simp add: history_def quizzes_submit_post_quiz)

lemma history_show_post_results [simp]: "history (snd (show_post_results quiz s)) = history s"
  by (simp add: show_post_results_def history_def split: sum.splits option.splits)

lemma snd_and_next: "snd (and_next r f) = (if fst r = None then snd (f (snd r)) else snd r)"
  by (simp add: and_next_def split: option.splits)

lemma history_post_quiz_tab [simp]: "history (snd (post_quiz_tab u s)) = history s"
  by (simp add: post_quiz_tab_def Let_def snd_and_next split: option.splits)

lemma history_pre_quiz_tab: "\<exists>h. history (snd (pre_quiz_tab u s)) = history s @ h"
proof (cases "current_quiz (generate_quiz u s)")
  case None
  then show ?thesis by (simp add: pre_quiz_tab_def Let_def)
next
  case (Some quiz)
  show ?thesis
  proof (cases "quiz = [] \<or> fst (show_quiz_from u 0 quiz (generate_quiz u s)) \<noteq> None
                 \<or> fst (submit_quiz u quiz (snd (show_quiz_from u 0 quiz (generate_quiz u s)))) \<noteq> None")
    case True
    then show ?thesis using Some by (auto simp: pre_quiz_tab_def Let_def snd_and_next)
  next
    case False
    then show ?thesis
      using Some
        history_show_results[of u quiz "snd (submit_quiz u quiz (snd (show_quiz_from u 0 quiz (generate_quiz u s))))"]
      by (auto simp: pre_quiz_tab_def Let_def snd_and_next)
  qed
qed

lemma history_append_only: "\<exists>h. history (snd (main L u s)) = history s @ h"
proof -
  obtain h where "history (snd (pre_quiz_tab u (snd (home_tab L u (init_state s))))) = history s @ h"
    using history_pre_quiz_tab[of u "snd (home_tab L u (init_state s))"] by auto
  then show ?thesis
    by (auto simp: main_def snd_and_next)
qed


section \<open>Facts about the text normalizer\<close>

lemma filtered_words_fixed:
  assumes "word_tokenize L (str_lower L (clean_text L s)) = filtered_words L s"
  shows "filtered_words L (clean_text L s) = filtered_words L s"
proof -
  have "filter (\<lambda>word. word \<notin> set (stopwords L) \<and> str_isalpha L word) (filtered_words L s)
          = filtered_words L s"
    by (simp add: filtered_words_def)
  then show ?thesis
    using assms by (simp add: filtered_words_def[of L "clean_text L s"])
qed

lemma clean_text_twice:
  assumes "word_tokenize L (str_lower L (clean_text L s)) = filtered_words L s"
  shows "clean_text L (clean_text L s) = clean_text L s"
  using filtered_words_fixed[OF assms] by (simp add: clean_text_def)

section \<open>Facts about the rounded products\<close>

lemma round_half_even_ge_div: "n div 2 ^ k \<le> round_half_even n k"
  by (simp add: round_half_even_def Let_def)

lemma round_half_even_lower: "a * 2 ^ k \<le> n \<Longrightarrow> a \<le> round_half_even n k"
proof -
  assume "a * 2 ^ k \<le> n"
  then have "a \<le> n div 2 ^ k"
    by (simp add: less_eq_div_iff_mult_less_eq)
  then show ?thesis using round_half_even_ge_div[of n k] by linarith
qed

lemma round_half_even_upper:
  assumes "a \<le> round_half_even n k"
  shows "2 * (a * 2 ^ k) \<le> 2 * n + 2 ^ k"
proof -
  define q where "q = n div 2 ^ k"
  define r where "r = n mod 2 ^ k"
  have n: "n = q * 2 ^ k + r" unfolding q_def r_def by (rule div_mult_mod_eq[symmetric])
  show ?thesis
  proof (cases "round_half_even n k = q")
    case True
    then have "a * 2 ^ k \<le> q * 2 ^ k" using assms by simp
    then show ?thesis using n by linarith
  next
    case False
    then have r: "2 ^ k \<le> 2 * r" and v: "round_half_even n k = q + 1"
      by (auto simp: round_half_even_def Let_def q_def r_def split: if_splits)
    from assms v have "a \<le> q + 1" by simp
    then have "a * 2 ^ k \<le> (q + 1) * 2 ^ k" by (rule mult_le_mono1)
    then have "a * 2 ^ k \<le> q * 2 ^ k + 2 ^ k" by (simp add: algebra_simps)
    then show ?thesis using n r by linarith
  qed
qed

lemma round_half_even_exact: "2 ^ k dvd n \<Longrightarrow> round_half_even n k * 2 ^ k = n"
  by (auto simp: round_half_even_def Let_def)

lemma le_int_times_double:
  "of_int s \<le> int_times_double t m \<longleftrightarrow>
     s * 2 ^ 53 \<le> int (round_half_even (t * m) (floorlog 2 (t * m) - 53) * 2 ^ (floorlog 2 (t * m) - 53))"
proof -
  let ?X = "round_half_even (t * m) (floorlog 2 (t * m) - 53) * 2 ^ (floorlog 2 (t * m) - 53)"
  have "of_int s \<le> int_times_double t m \<longleftrightarrow> (of_int s :: rat) * 2 ^ 53 \<le> of_nat ?X"
    by (simp add: int_times_double_def Let_def pos_le_divide_eq)
  also have "\<dots> \<longleftrightarrow> (of_int (s * 2 ^ 53) :: rat) \<le> of_int (int ?X)"
    by simp
  also have "\<dots> \<longleftrightarrow> s * 2 ^ 53 \<le> int ?X"
    by (rule of_int_le_iff)
  finally show ?thesis .
qed

lemma shift_bound:
  assumes "t < 2 ^ 50" "m < 2 ^ 53"
  shows "floorlog 2 (t * m) - 53 \<le> 50"
proof -
  have "t * m < 2 ^ 50 * 2 ^ 53"
    using assms by (meson mult_strict_mono' zero_le)
  then have "t * m < 2 ^ 103" by simp
  then have "floorlog 2 (t * m) \<le> 103" by (intro floorlog_leI) auto
  then show ?thesis by simp
qed

lemma half_exact:
  assumes "t < 2 ^ 50"
  shows "of_int s \<le> int_times_double t double_0_5 \<longleftrightarrow> 2 * s \<le> int t"
proof -
  let ?n = "t * double_0_5"
  let ?k = "floorlog 2 ?n - 53"
  have "?k \<le> 50" using shift_bound[OF assms, of double_0_5] by (simp add: double_0_5_def)
  then have "(2::nat) ^ ?k dvd 2 ^ 52" by (intro le_imp_power_dvd) simp
  then have "2 ^ ?k dvd ?n" by (simp add: double_0_5_def)
  then have "round_half_even ?n ?k * 2 ^ ?k = ?n" by (rule round_half_even_exact)
  then have "of_int s \<le> int_times_double t double_0_5 \<longleftrightarrow> s * 2 ^ 53 \<le> int ?n"
    by (simp only: le_int_times_double)
  also have "\<dots> \<longleftrightarrow> 2 * s \<le> int t"
    by (simp add: double_0_5_def)
  finally show ?thesis .
qed

lemma four_fifths:
  assumes "t < 2 ^ 50"
  shows "of_int s \<le> int_times_double t double_0_8 \<longleftrightarrow> 5 * s \<le> 4 * int t"
proof -
  define n where "n = t * double_0_8"
  define k where "k = floorlog 2 n - 53"
  define P :: int where "P = 2 ^ 53"
  have k: "k \<le> 50" using shift_bound[OF assms, of double_0_8] by (simp add: double_0_8_def k_def n_def)
  have n5: "5 * int n = 4 * int t * P + 2 * int t"
    by (simp add: n_def double_0_8_def P_def)
  have Ppos: "0 < P" by (simp add: P_def)
  have eq: "of_int s \<le> int_times_double t double_0_8 \<longleftrightarrow> s * P \<le> int (round_half_even n k * 2 ^ k)"
    unfolding n_def k_def P_def by (rule le_int_times_double)
  have split: "P = 2 ^ (53 - k) * 2 ^ k"
    using k by (simp add: P_def flip: power_add)
  show ?thesis
  proof
    assume le: "5 * s \<le> 4 * int t"
    show "of_int s \<le> int_times_double t double_0_8"
    proof (cases "0 \<le> s")
      case False
      then have "s * P \<le> 0" using Ppos by (simp add: mult_le_0_iff)
      then show ?thesis unfolding eq by linarith
    next
      case True
      define a where "a = nat s * 2 ^ (53 - k)"
      have aP: "int (a * 2 ^ k) = s * P"
        using True split by (simp add: a_def mult.assoc)
      have "5 * (s * P) \<le> 4 * int t * P" using le Ppos by simp
      then have "s * P \<le> int n" using n5 by linarith
      then have "a * 2 ^ k \<le> n" using aP by linarith
      then have "a \<le> round_half_even n k" by (rule round_half_even_lower)
      then have "a * 2 ^ k \<le> round_half_even n k * 2 ^ k" by simp
      then show ?thesis unfolding eq using aP by linarith
    qed
  next
    assume fl: "of_int s \<le> int_times_double t double_0_8"
    show "5 * s \<le> 4 * int t"
    proof (rule ccontr)
      assume "\<not> 5 * s \<le> 4 * int t"
      then have gt: "4 * int t + 1 \<le> 5 * s" by simp
      then have spos: "0 \<le> s" by linarith
      define a where "a = nat s * 2 ^ (53 - k)"
      have aP: "int (a * 2 ^ k) = s * P"
        using spos split by (simp add: a_def mult.assoc)
      from fl have "s * P \<le> int (round_half_even n k * 2 ^ k)" unfolding eq .
      then have "a * 2 ^ k \<le> round_half_even n k * 2 ^ k" using aP by linarith
      then have "a \<le> round_half_even n k" by simp
      then have "2 * (a * 2 ^ k) \<le> 2 * n + 2 ^ k" by (rule round_half_even_upper)
      then have "2 * int (a * 2 ^ k) \<le> 2 * int n + int (2 ^ k)" by linarith
      then have u: "2 * (s * P) \<le> 2 * int n + 2 ^ k" using aP by simp
      have "(2::int) ^ k \<le> 2 ^ 50" using k by (intro power_increasing) auto
      moreover have "int t < 2 ^ 50" using assms by (metis of_nat_less_iff of_nat_numeral of_nat_power)
      moreover have "(4 * int t + 1) * P \<le> 5 * s * P" using gt Ppos by (intro mult_right_mono) auto
      ultimately show False using u n5 by (simp add: P_def algebra_simps)
    qed
  qed
qed

text \<open>
  Two products as Python prints them: \<^verbatim>\<open>3 * 0.8\<close> is \<^verbatim>\<open>2.4000000000000004\<close> and
  \<^verbatim>\<open>5 * 0.8\<close> is \<^verbatim>\<open>4.0\<close>.
\<close>

lemma floorlog_3_times_0_8: "floorlog 2 21617278211378382 = 55"
  by (rule antisym) (auto intro!: floorlog_leI floorlog_geI)

lemma three_times_0_8:
  "int_times_double 3 double_0_8 = 5404319552844596 / 2 ^ 51"
  by (simp add: int_times_double_def double_0_8_def floorlog_3_times_0_8 round_half_even_def Let_def)

lemma floorlog_5_times_0_8: "floorlog 2 36028797018963970 = 56"
  by (rule antisym) (auto intro!: floorlog_leI floorlog_geI)

lemma five_times_0_8: "int_times_double 5 double_0_8 = 4"
  by (simp add: int_times_double_def double_0_8_def floorlog_5_times_0_8 round_half_even_def Let_def)

section \<open>The claims\<close>

text \<open>
  C1.  The score of a submission is the number of indices whose recorded answer matches
  the correct answer, where for a multiple-choice question the recorded answer is
  compared with the option text under the correct key.  The post-learning loop does not
  do that: it compares the recorded option text with the key.  The service returns the
  well-formed multiple-choice question \<open>capital_post_mcq\<close>, the generator keeps it, the
  user chooses the correct option \<^verbatim>\<open>Paris\<close> and submits: the stored score is 0, not 1.
  The pre-learning loop gives 1 for the same question and answer.
\<close>

theorem post_quiz_correct_choice_scores_zero:
  "generate_post_learning_quiz (Decoded (JList [capital_post_mcq])) = ([capital_post_mcq], []) \<and>
   correct_option capital_post_mcq = Inr (JStr ''Paris'') \<and>
   score_post [capital_post_mcq] [(0, JStr ''Paris'')] = Inr 0 \<and>
   score_pre [capital_mcq] [(0, JStr ''Paris'')] = Inr 1 \<and>
   last_post_quiz_score
     (snd (main L (no_action\<lparr>submit_post := True, post_radio := (\<lambda>idx. JStr ''Paris'')\<rparr>)
        (snd (main L (no_action\<lparr>gen_post_quiz := True,
                                  post_reply := Decoded (JList [capital_post_mcq]),
                                  post_radio := (\<lambda>idx. JStr ''Paris'')\<rparr>)
                with_roadmap)))) = Some 0"
proof -
  have gen: "main L (no_action\<lparr>gen_post_quiz := True,
                                post_reply := Decoded (JList [capital_post_mcq]),
                                post_radio := (\<lambda>idx. JStr ''Paris'')\<rparr>) with_roadmap
             = (None, with_roadmap\<lparr>post_quiz := Some [capital_post_mcq],
                                    post_quiz_answers := Some [(0, JStr ''Paris'')],
                                    post_quiz_submitted := Some False\<rparr>)"
    by (simp add: run_defs capital_post_mcq_generated) (simp add: capital_post_mcq_def bind_def)
  have sub: "last_post_quiz_score
               (snd (main L (no_action\<lparr>submit_post := True, post_radio := (\<lambda>idx. JStr ''Paris'')\<rparr>)
                  (with_roadmap\<lparr>post_quiz := Some [capital_post_mcq],
                                post_quiz_answers := Some [(0, JStr ''Paris'')],
                                post_quiz_submitted := Some False\<rparr>))) = Some 0"
    by (simp add: run_defs capital_post_mcq_def bind_def score_post_def dict_get_def)
  have "correct_option capital_post_mcq = Inr (JStr ''Paris'')"
    by (simp add: capital_post_mcq_def check_defs)
  moreover have "score_post [capital_post_mcq] [(0, JStr ''Paris'')] = Inr 0"
    by (simp add: capital_post_mcq_def check_defs)
  moreover have "score_pre [capital_mcq] [(0, JStr ''Paris'')] = Inr 1"
    by (simp add: capital_mcq_def check_defs)
  ultimately show ?thesis
    using capital_post_mcq_generated gen sub by simp
qed

text \<open>
  C2.  Every multiple-choice entry a generator keeps has its correct key in its own
  options mapping.  \<^verbatim>\<open>generate_post_learning_quiz\<close> does not test that \<^verbatim>\<open>options\<close> is a
  dict (\<^verbatim>\<open>fetch_questions\<close> does): it keeps \<open>capital_post_list\<close>, whose options are a
  list holding the value of \<^verbatim>\<open>correct\<close>.  The entry has no options mapping, and showing
  the quiz raises \<^verbatim>\<open>AttributeError\<close> at \<^verbatim>\<open>options.values()\<close>.
\<close>

theorem post_quiz_keeps_options_list:
  "generate_post_learning_quiz (Decoded (JList [capital_post_list])) = ([capital_post_list], []) \<and>
   py_getitem capital_post_list (JStr ''options'') = Inr (JList [JStr ''Paris'', JStr ''Rome'']) \<and>
   \<not> is_dict (JList [JStr ''Paris'', JStr ''Rome'']) \<and>
   fetch_questions (Decoded (JList
     [JDict [(''mcq'', JStr ''Capital of France?''),
             (''options'', JList [JStr ''Paris'', JStr ''Rome'']),
             (''correct'', JStr ''Paris'')]])) =
     ([], [StWarning ''No valid questions were generated. OpenAI may have returned malformed data.'']) \<and>
   fst (main L (no_action\<lparr>gen_post_quiz := True,
                           post_reply := Decoded (JList [capital_post_list])\<rparr>) with_roadmap)
     = Some AttributeError"
proof -
  have "fst (main L (no_action\<lparr>gen_post_quiz := True,
                           post_reply := Decoded (JList [capital_post_list])\<rparr>) with_roadmap)
     = Some AttributeError"
    by (simp add: run_defs capital_post_list_generated) (simp add: capital_post_list_def bind_def)
  moreover have "py_getitem capital_post_list (JStr ''options'')
                   = Inr (JList [JStr ''Paris'', JStr ''Rome''])"
    by (simp add: capital_post_list_def)
  moreover have "fetch_questions (Decoded (JList
     [JDict [(''mcq'', JStr ''Capital of France?''),
             (''options'', JList [JStr ''Paris'', JStr ''Rome'']),
             (''correct'', JStr ''Paris'')]])) =
     ([], [StWarning ''No valid questions were generated. OpenAI may have returned malformed data.''])"
    by (simp add: check_defs)
  ultimately show ?thesis
    using capital_post_list_generated by simp
qed

text \<open>
  C3.  A malformed entry of a decoded batch is discarded without aborting the validation
  of the others, and a batch of malformed entries only gives an empty list and a
  warning.  In the post-learning generator an entry without the key \<^verbatim>\<open>type\<close> raises
  \<^verbatim>\<open>KeyError\<close> inside the comprehension: the whole batch is lost, the well-formed
  \<open>sky_true_false\<close> after it included, and an error is reported.  In the pre-learning
  generator an entry whose \<^verbatim>\<open>correct\<close> is a list raises \<^verbatim>\<open>TypeError\<close> (unhashable) with
  the same effect.  A post-learning batch whose only entry has an unknown type gives the
  empty list with no message at all.
\<close>

theorem malformed_entry_aborts_batch:
  "generate_post_learning_quiz (Decoded (JList
      [JDict [(''question'', JStr ''The sky is green.''), (''correct'', JBool False)],
       sky_true_false]))
     = ([], [StError ''Error generating post-learning quiz'']) \<and>
   generate_post_learning_quiz (Decoded (JList [sky_true_false])) = ([sky_true_false], []) \<and>
   fetch_questions (Decoded (JList
      [JDict [(''mcq'', JStr ''Capital of France?''),
              (''options'', JDict [(''a'', JStr ''Paris''), (''b'', JStr ''Rome'')]),
              (''correct'', JList [JStr ''a''])],
       capital_mcq]))
     = ([], [StError ''Error generating quiz'']) \<and>
   fetch_questions (Decoded (JList [capital_mcq])) = ([capital_mcq], []) \<and>
   generate_post_learning_quiz (Decoded (JList [JDict [(''type'', JStr ''essay'')]])) = ([], [])"
  by (simp add: sky_true_false_def capital_mcq_def check_defs)

text \<open>
  C4.  For a score \<open>s\<close> out of \<open>t\<close> the level is Beginner if \<open>s \<le> 0.5 t\<close>,
  Intermediate if \<open>0.5 t < s \<le> 0.8 t\<close> and Advanced otherwise, the bounds taken
  exactly: \<open>2 s \<le> t\<close> and \<open>5 s \<le> 4 t\<close>.  The code compares with rounded floating-point
  products; for every quiz of fewer than \<open>2 ^ 50\<close> questions the rounding never moves
  a bound across an integer, so the levels are the exact ones.  In particular a score of
  exactly half the total is Beginner and one of exactly four fifths is Intermediate.
\<close>

theorem performance_level_bands:
  assumes "total_questions < 2 ^ 50"
  shows "performance_level user_score total_questions =
           (if 2 * user_score \<le> int total_questions then Beginner
            else if 5 * user_score \<le> 4 * int total_questions then Intermediate
            else Advanced)"
  by (simp only: performance_level_def half_exact[OF assms] four_fifths[OF assms])

theorem performance_level_bands_witness:
  "performance_level 5 10 = Beginner \<and> performance_level 8 10 = Intermediate \<and>
   performance_level 9 10 = Advanced \<and> performance_level 6 10 = Intermediate"
  using performance_level_bands[of 10 5] performance_level_bands[of 10 8]
        performance_level_bands[of 10 9] performance_level_bands[of 10 6]
  by simp


text \<open>
  C10.  In both scoring loops an index without a recorded answer never counts:
  \<^verbatim>\<open>answers.get(idx)\<close> is \<^verbatim>\<open>None\<close>, which equals no option text (a string) and no
  boolean, so the running score passes such a question unchanged; that holds in the
  pre-learning loop when the correct option text is a string, and in the post-learning
  loop when \<^verbatim>\<open>correct\<close> is a string or a boolean.  And every score computed for a quiz
  that passed its generator's filter exists and lies between 0 and the number of
  questions.
\<close>

theorem unanswered_index_never_counts:
  "(map_of a idx = None \<and> correct_option q = Inr (JStr opt) \<longrightarrow>
      score_pre_from idx a sc (q # rest) = score_pre_from (Suc idx) a sc rest) \<and>
   (map_of a idx = None \<and>
    (py_getitem p (JStr ''correct'') = Inr (JStr k) \<or> py_getitem p (JStr ''correct'') = Inr (JBool b)) \<longrightarrow>
      score_post_from idx a sc (p # rest) = score_post_from (Suc idx) a sc rest) \<and>
   ((\<forall>x \<in> set qs. pre_question_ok x = Inr True) \<longrightarrow>
      (\<exists>n. score_pre qs a = Inr n \<and> 0 \<le> n \<and> n \<le> int (length qs))) \<and>
   ((\<forall>x \<in> set ps. post_question_ok x = Inr True) \<longrightarrow>
      (\<exists>n. score_post ps a = Inr n \<and> 0 \<le> n \<and> n \<le> int (length ps)))"
proof (intro conjI impI)
  assume "map_of a idx = None \<and> correct_option q = Inr (JStr opt)"
  then show "score_pre_from idx a sc (q # rest) = score_pre_from (Suc idx) a sc rest"
    by (simp add: dict_get_missing)
next
  assume "map_of a idx = None \<and>
    (py_getitem p (JStr ''correct'') = Inr (JStr k) \<or> py_getitem p (JStr ''correct'') = Inr (JBool b))"
  then show "score_post_from idx a sc (p # rest) = score_post_from (Suc idx) a sc rest"
    by (auto simp: dict_get_missing)
next
  assume ok: "\<forall>x \<in> set qs. pre_question_ok x = Inr True"
  then obtain n where n: "score_pre_from 0 a 0 qs = Inr n"
    using score_pre_from_total[of qs 0 a 0] pre_ok_correct_option by blast
  with score_pre_from_bounds[OF n] show "\<exists>n. score_pre qs a = Inr n \<and> 0 \<le> n \<and> n \<le> int (length qs)"
    by (simp add: score_pre_def)
next
  assume ok: "\<forall>x \<in> set ps. post_question_ok x = Inr True"
  then obtain n where n: "score_post_from 0 a 0 ps = Inr n"
    using score_post_from_total[of ps 0 a 0] post_ok_correct by blast
  with score_post_from_bounds[OF n] show "\<exists>n. score_post ps a = Inr n \<and> 0 \<le> n \<and> n \<le> int (length ps)"
    by (simp add: score_post_def)
qed

theorem unanswered_index_never_counts_witness:
  "score_pre_from 0 [] 0 [capital_mcq] = score_pre_from (Suc 0) [] 0 [] \<and>
   score_post_from 0 [] 0 [sky_true_false] = score_post_from (Suc 0) [] 0 [] \<and>
   (\<exists>n. score_pre [capital_mcq] [] = Inr n \<and> 0 \<le> n \<and> n \<le> int (length [capital_mcq])) \<and>
   (\<exists>n. score_post [sky_true_false, capital_post_mcq] [] = Inr n \<and> 0 \<le> n \<and>
        n \<le> int (length [sky_true_false, capital_post_mcq]))"
proof -
  have h1: "map_of ([] :: answers) 0 = None \<and> correct_option capital_mcq = Inr (JStr ''Paris'')"
    by (simp add: capital_mcq_def check_defs)
  have h2: "map_of ([] :: answers) 0 = None \<and>
    (py_getitem sky_true_false (JStr ''correct'') = Inr (JStr '''') \<or>
     py_getitem sky_true_false (JStr ''correct'') = Inr (JBool True))"
    by (simp add: sky_true_false_def)
  have h3: "\<forall>x \<in> set [capital_mcq]. pre_question_ok x = Inr True"
    by (simp add: capital_mcq_def check_defs)
  have h4: "\<forall>x \<in> set [sky_true_false, capital_post_mcq]. post_question_ok x = Inr True"
    by (simp add: sky_true_false_def capital_post_mcq_def check_defs)
  show ?thesis
    using unanswered_index_never_counts[where a = "[]" and idx = 0 and q = capital_mcq
        and opt = "''Paris''" and sc = 0 and rest = "[]" and p = sky_true_false and k = "''''"
        and b = True and qs = "[capital_mcq]" and ps = "[sky_true_false, capital_post_mcq]"]
      h1 h2 h3 h4
    by blast
qed


text \<open>
  C5.  After the first submit of a quiz a second submit changes no session state.  The
  guard \<^verbatim>\<open>quiz_submitted\<close> does keep the score from being computed again, but the block
  that shows the results (lines 238 to 270) runs in every run while the guard is set and
  appends the result to \<^verbatim>\<open>quizzes\<close> each time: from \<open>new_session\<close> the quiz is
  generated, submitted (state \<open>quiz_scored\<close>) and submitted again, and the second submit
  leaves the score as it is and adds a second entry to the history.
\<close>

theorem second_submit_changes_history:
  "main L (no_action\<lparr>gen_quiz := True, quiz_reply := Decoded (JList [capital_mcq]),
                      radio := (\<lambda>idx. JStr ''Paris'')\<rparr>) new_session = (None, quiz_shown) \<and>
   main L resubmit quiz_shown = (None, quiz_scored) \<and>
   snd (main L resubmit quiz_scored) \<noteq> quiz_scored \<and>
   snd (main L (resubmit\<lparr>submit_answers := False\<rparr>) quiz_scored) \<noteq> quiz_scored \<and>
   last_quiz_score (snd (main L resubmit quiz_scored)) = last_quiz_score quiz_scored \<and>
   quizzes quiz_scored = Some [\<lparr>date = 7, score = 1, total = 1\<rparr>] \<and>
   quizzes (snd (main L resubmit quiz_scored))
     = Some [\<lparr>date = 7, score = 1, total = 1\<rparr>, \<lparr>date = 7, score = 1, total = 1\<rparr>]"
proof -
  have idle: "resubmit\<lparr>submit_answers := False\<rparr>
                = no_action\<lparr>radio := (\<lambda>idx. JStr ''Paris''), today := 7\<rparr>"
    by (simp add: resubmit_def no_action_def)
  have again: "main L resubmit quiz_scored
      = (None, quiz_scored\<lparr>quizzes := Some [\<lparr>date = 7, score = 1, total = 1\<rparr>,
                                                \<lparr>date = 7, score = 1, total = 1\<rparr>]\<rparr>)"
    using run_resubmit[of L] by (simp add: resubmit_def)
  have "snd (main L resubmit quiz_scored) \<noteq> quiz_scored"
    using again history_grown_differs by simp
  moreover have "snd (main L (resubmit\<lparr>submit_answers := False\<rparr>) quiz_scored) \<noteq> quiz_scored"
    using run_idle[of L] history_grown_differs by (simp add: idle)
  moreover have "last_quiz_score (snd (main L resubmit quiz_scored)) = last_quiz_score quiz_scored"
    using again by simp
  moreover have "quizzes quiz_scored = Some [\<lparr>date = 7, score = 1, total = 1\<rparr>]"
    by (simp add: quiz_scored_def)
  moreover have "quizzes (snd (main L resubmit quiz_scored))
     = Some [\<lparr>date = 7, score = 1, total = 1\<rparr>, \<lparr>date = 7, score = 1, total = 1\<rparr>]"
    using again by simp
  moreover have "main L resubmit quiz_shown = (None, quiz_scored)"
    using run_submit[of L] by (simp add: resubmit_def)
  ultimately show ?thesis
    using run_generate[of L] by blast
qed

text \<open>
  C9.  Each submission appends exactly one result to the history, which is append-only.
  The history is append-only (\<open>history_append_only\<close>), but one submission of the
  pre-learning quiz is followed by one more entry in every later run, here a run in
  which nothing is pressed; and a post-learning submission, scored 1, appends nothing.
\<close>

theorem rerun_appends_history_again:
  "quizzes (snd (main L resubmit quiz_shown)) = Some [\<lparr>date = 7, score = 1, total = 1\<rparr>] \<and>
   quizzes (snd (main L (no_action\<lparr>radio := (\<lambda>idx. JStr ''Paris''), today := 7\<rparr>)
                    (snd (main L resubmit quiz_shown))))
     = Some [\<lparr>date = 7, score = 1, total = 1\<rparr>, \<lparr>date = 7, score = 1, total = 1\<rparr>] \<and>
   quizzes (snd (main L (no_action\<lparr>submit_post := True, post_radio := (\<lambda>idx. JStr ''True'')\<rparr>)
                    (with_roadmap\<lparr>post_quiz := Some [sky_true_false],
                                  post_quiz_answers := Some [(0, JBool True)],
                                  post_quiz_submitted := Some False\<rparr>))) = Some [] \<and>
   last_post_quiz_score
     (snd (main L (no_action\<lparr>submit_post := True, post_radio := (\<lambda>idx. JStr ''True'')\<rparr>)
                    (with_roadmap\<lparr>post_quiz := Some [sky_true_false],
                                  post_quiz_answers := Some [(0, JBool True)],
                                  post_quiz_submitted := Some False\<rparr>))) = Some 1"
proof -
  have "quizzes (snd (main L (no_action\<lparr>submit_post := True, post_radio := (\<lambda>idx. JStr ''True'')\<rparr>)
                    (with_roadmap\<lparr>post_quiz := Some [sky_true_false],
                                  post_quiz_answers := Some [(0, JBool True)],
                                  post_quiz_submitted := Some False\<rparr>))) = Some []"
    by (simp add: run_defs sky_true_false_def check_defs)
  moreover have "last_post_quiz_score
     (snd (main L (no_action\<lparr>submit_post := True, post_radio := (\<lambda>idx. JStr ''True'')\<rparr>)
                    (with_roadmap\<lparr>post_quiz := Some [sky_true_false],
                                  post_quiz_answers := Some [(0, JBool True)],
                                  post_quiz_submitted := Some False\<rparr>))) = Some 1"
    by (simp add: run_defs sky_true_false_def check_defs)
  ultimately show ?thesis
    using run_submit[of L] run_idle[of L]
    by (simp add: resubmit_def) (simp add: quiz_scored_def quiz_shown_def new_session_def)
qed


text \<open>
  C6.  When the status of the response is not success, \<^verbatim>\<open>scrape_course\<close> fails with an
  error that carries the status and returns no content; when the fetch succeeds and
  both regions are missing it returns two empty lists and no error.  The code has one
  fixed message for every status other than 200: the results for 404 and 500 are the
  same, so the error does not carry the status.
\<close>

theorem scrape_course_error_without_status:
  "scrape_course ascii_lib (Inr \<lparr>status_code = 404, learn_section = Some [''Learn the basics''],
                                 skills_section = None\<rparr>)
     = Inr (None, Some ''Failed to fetch content'') \<and>
   scrape_course ascii_lib (Inr \<lparr>status_code = 500, learn_section = Some [''Learn the basics''],
                                 skills_section = None\<rparr>)
     = Inr (None, Some ''Failed to fetch content'')"
  by (simp add: scrape_course_def)

text \<open>
  C6, as the code has it.  If the status code is not 200, \<^verbatim>\<open>scrape_course\<close> returns no
  content and the message \<^verbatim>\<open>Failed to fetch content\<close>; if it is 200 and the page has
  neither region, it returns the content with two empty lists and no error.
\<close>

theorem scrape_course_outcomes:
  "(status_code resp \<noteq> 200 \<longrightarrow>
      scrape_course L (Inr resp) = Inr (None, Some ''Failed to fetch content'')) \<and>
   (status_code resp = 200 \<and> learn_section resp = None \<and> skills_section resp = None \<longrightarrow>
      scrape_course L (Inr resp)
        = Inr (Some \<lparr>what_youll_learn = [], skills_youll_gain = []\<rparr>, None))"
  by (simp add: scrape_course_def)

theorem scrape_course_outcomes_witness:
  "scrape_course ascii_lib (Inr \<lparr>status_code = 404, learn_section = None, skills_section = None\<rparr>)
     = Inr (None, Some ''Failed to fetch content'') \<and>
   scrape_course ascii_lib (Inr \<lparr>status_code = 200, learn_section = None, skills_section = None\<rparr>)
     = Inr (Some \<lparr>what_youll_learn = [], skills_youll_gain = []\<rparr>, None)"
  using scrape_course_outcomes[of "\<lparr>status_code = 404, learn_section = None, skills_section = None\<rparr>" ascii_lib]
        scrape_course_outcomes[of "\<lparr>status_code = 200, learn_section = None, skills_section = None\<rparr>" ascii_lib]
  by simp

text \<open>
  C7.  \<^verbatim>\<open>clean_text\<close> returns the kept words joined by single blanks; the kept words are,
  in their order, words of the token sequence of the lower-cased input, each of them
  alphabetic, outside the stop-word list and lower-case; the empty input gives the empty
  output.  Two facts about the library functions are assumed: an alphabetic token of the
  lower-cased input is unchanged by \<^verbatim>\<open>lower\<close>, and the empty text has no tokens.
\<close>

theorem clean_text_tokens:
  assumes "\<forall>w \<in> set (word_tokenize L (str_lower L s)). str_isalpha L w \<longrightarrow> str_lower L w = w"
    and "word_tokenize L (str_lower L []) = []"
  shows "clean_text L s = join_words (filtered_words L s) \<and>
         subseq (filtered_words L s) (word_tokenize L (str_lower L s)) \<and>
         (\<forall>w \<in> set (filtered_words L s).
            str_lower L w = w \<and> str_isalpha L w \<and> w \<notin> set (stopwords L)) \<and>
         clean_text L [] = []"
  using assms by (auto simp: clean_text_def filtered_words_def)

theorem clean_text_tokens_witness:
  "clean_text ascii_lib ''The Cat of Rome 2x'' = ''cat rome'' \<and>
   filtered_words ascii_lib ''The Cat of Rome 2x'' = [''cat'', ''rome''] \<and>
   subseq [''cat'', ''rome''] (word_tokenize ascii_lib (str_lower ascii_lib ''The Cat of Rome 2x'')) \<and>
   clean_text ascii_lib [] = []"
proof -
  have fw: "filtered_words ascii_lib ''The Cat of Rome 2x'' = [''cat'', ''rome'']"
    by (simp add: filtered_words_def ascii_lib_def ascii_lower_char_def ascii_isalpha_def)
  have h1: "\<forall>w \<in> set (word_tokenize ascii_lib (str_lower ascii_lib ''The Cat of Rome 2x'')).
              str_isalpha ascii_lib w \<longrightarrow> str_lower ascii_lib w = w"
    by (simp add: ascii_lib_def ascii_lower_char_def ascii_isalpha_def)
  have h2: "word_tokenize ascii_lib (str_lower ascii_lib []) = []"
    by (simp add: ascii_lib_def)
  show ?thesis
    using clean_text_tokens[OF h1 h2] fw by simp
qed


end
